theory Spec2Isabelle
  imports Main
begin

section \<open>Client-side callbacks: \<^verbatim>\<open>bokeh/models/callbacks.py\<close>\<close>

text \<open>
  The module declares three concrete callback models, \<^verbatim>\<open>OpenURL\<close>, \<^verbatim>\<open>CustomJS\<close> and
  \<^verbatim>\<open>SetValue\<close>. Only \<^verbatim>\<open>SetValue\<close> carries logic: two validation checks, each wrapped
  by the \<^verbatim>\<open>@error\<close> decorator. The property framework they call into
  (\<^verbatim>\<open>HasProps.lookup\<close>, \<^verbatim>\<open>Property.is_valid\<close>, the decorator and the pass that runs the
  checks) lives in \<^verbatim>\<open>bokeh.core\<close>, outside the file.

  A Python exception is a value of type \<open>exn\<close>; a computation that may raise returns
  \<open>exn + 'a\<close>, with \<open>Inl\<close> for the raised exception. A method of an object takes the
  object and gives it back, so that what the method leaves untouched can be stated.
\<close>

subsection \<open>Property holders\<close>

datatype exn = AttributeError string

text \<open>
  A property type. The callbacks use one capability of it, \<^verbatim>\<open>is_valid(value)\<close>, which
  answers with a boolean and is taken as a field.
\<close>

record 'v Property =
  is_valid :: "'v \<Rightarrow> bool"

text \<open>A property descriptor; \<^verbatim>\<open>descriptor.property\<close> is the property type it wraps.\<close>

record 'v PropertyDescriptor =
  property :: "'v Property"

text \<open>
  An object with properties: \<open>str_of\<close> is the text that \<^verbatim>\<open>str(obj)\<close> gives (what an
  f-string prints for \<^verbatim>\<open>{self.obj}\<close>), \<open>descriptors\<close> is the schema of its class, from
  property names to descriptors, and \<open>props\<close> holds the current property values.
\<close>

record 'v HasProps =
  str_of :: string
  descriptors :: "string \<rightharpoonup> 'v PropertyDescriptor"
  props :: "string \<rightharpoonup> 'v"

text \<open>
  Modelled from the spec: \<^verbatim>\<open>HasProps.lookup\<close> of \<^verbatim>\<open>bokeh.core.has_props\<close> is not in
  the file. The spec gives it as \<^verbatim>\<open>lookup(attributeName) -> PropertyDescriptor | not-found\<close>;
  the first check calls it with \<^verbatim>\<open>raises=False\<close> and tests the answer for truth, the
  second calls it without the keyword. With \<^verbatim>\<open>raises=False\<close> not-found is the value
  \<^verbatim>\<open>None\<close>; otherwise not-found is raised as an \<^verbatim>\<open>AttributeError\<close>.
\<close>

definition lookup ::
  "'v HasProps \<Rightarrow> string \<Rightarrow> bool \<Rightarrow> exn + 'v PropertyDescriptor option" where
  "lookup ob nm raises =
     (case descriptors ob nm of
        Some d \<Rightarrow> Inr (Some d)
      | None \<Rightarrow>
          if raises then Inl (AttributeError (nm @ '' property descriptor does not exist''))
          else Inr None)"

subsection \<open>OpenURL\<close>

record OpenURL =
  url :: string
  same_tab :: bool

text \<open>
  \<^verbatim>\<open>OpenURL(**kwargs)\<close>: a keyword that is not given takes the default of the property
  declaration, \<^verbatim>\<open>String("http://")\<close> and \<^verbatim>\<open>Bool(False)\<close>.
\<close>

definition OpenURL_init :: "string option \<Rightarrow> bool option \<Rightarrow> OpenURL" where
  "OpenURL_init u t =
     \<lparr> url = (case u of None \<Rightarrow> ''http://'' | Some s \<Rightarrow> s),
       same_tab = (case t of None \<Rightarrow> False | Some b \<Rightarrow> b) \<rparr>"

subsection \<open>CustomJS\<close>

text \<open>\<^verbatim>\<open>Either(Auto, Bool)\<close>: the string \<^verbatim>\<open>"auto"\<close> or a boolean.\<close>

datatype module_mode = Auto | Bool bool

record 'r CustomJS =
  args :: "string \<rightharpoonup> 'r"
  code :: "string option"
  module :: module_mode

text \<open>
  \<^verbatim>\<open>CustomJS(**kwargs)\<close>: \<^verbatim>\<open>__init__\<close> hands its arguments to the initialiser of the
  base class and tests none of them. A keyword that is not given takes the default of its
  declaration: \<^verbatim>\<open>args\<close> defaults to \<^verbatim>\<open>{}\<close> and \<^verbatim>\<open>module\<close> to \<^verbatim>\<open>"auto"\<close>.
  \<^verbatim>\<open>code\<close> is declared \<^verbatim>\<open>Required(String)\<close> with no default, so it holds a string
  once it is set and is \<open>None\<close> while it is not. Leaving a \<^verbatim>\<open>Required\<close> property out is a
  call the initialisers accept: the one of \<^verbatim>\<open>SetValue\<close> gives each of its own the
  default \<^verbatim>\<open>Intrinsic\<close>.
\<close>

definition CustomJS_init ::
  "(string \<rightharpoonup> 'r) option \<Rightarrow> string option \<Rightarrow> module_mode option \<Rightarrow> 'r CustomJS" where
  "CustomJS_init a c m =
     \<lparr> args = (case a of None \<Rightarrow> Map.empty | Some d \<Rightarrow> d),
       code = c,
       module = (case m of None \<Rightarrow> Auto | Some x \<Rightarrow> x) \<rparr>"

text \<open>
  Construction as a computation that may fail. \<^verbatim>\<open>EmptyCode\<close> is the name the spec gives to
  the failure of a construction without code. No initialiser of the module looks at the
  code or raises: construction returns the object, for every code, given or not.
\<close>

datatype construction_error = EmptyCode

definition CustomJS_construct ::
  "(string \<rightharpoonup> 'r) option \<Rightarrow> string option \<Rightarrow> module_mode option
     \<Rightarrow> construction_error + 'r CustomJS" where
  "CustomJS_construct a c m = Inr (CustomJS_init a c m)"

subsection \<open>SetValue\<close>

record 'v SetValue =
  obj :: "'v HasProps"
  attr :: string
  "value" :: 'v

text \<open>
  The two checks. Each returns \<^verbatim>\<open>None\<close> or a message, or raises; \<open>self\<close> is handed
  back as the method leaves it. \<open>rp\<close> is Python's \<^verbatim>\<open>repr\<close> on values (the \<^verbatim>\<open>!r\<close> of the
  f-string).

  In the first check the answer of \<^verbatim>\<open>lookup\<close> is tested for truth: a descriptor
  is an object and counts as true, \<^verbatim>\<open>None\<close> as false.

  In the second check \<^verbatim>\<open>lookup\<close> is called with its default \<^verbatim>\<open>raises\<close>; were it to
  answer \<^verbatim>\<open>None\<close>, the attribute access \<^verbatim>\<open>descriptor.property\<close> raises
  \<^verbatim>\<open>AttributeError\<close>.
\<close>

definition check_if_an_attribute_is_a_property_of_a_model ::
  "'v SetValue \<Rightarrow> (exn + string option) \<times> 'v SetValue" where
  "check_if_an_attribute_is_a_property_of_a_model self =
     (case lookup (obj self) (attr self) False of
        Inl e \<Rightarrow> (Inl e, self)
      | Inr (Some d) \<Rightarrow> (Inr None, self)
      | Inr None \<Rightarrow>
          (Inr (Some (attr self @ '' is not a property of '' @ str_of (obj self))), self))"

definition check_if_provided_a_valid_value ::
  "('v \<Rightarrow> string) \<Rightarrow> 'v SetValue \<Rightarrow> (exn + string option) \<times> 'v SetValue" where
  "check_if_provided_a_valid_value rp self =
     (case lookup (obj self) (attr self) True of
        Inl e \<Rightarrow> (Inl e, self)
      | Inr None \<Rightarrow>
          (Inl (AttributeError ''object has no attribute property''), self)
      | Inr (Some descriptor) \<Rightarrow>
          if is_valid (property descriptor) (value self) then (Inr None, self)
          else (Inr (Some (rp (value self) @ '' is not a valid value for ''
                             @ str_of (obj self) @ ''.'' @ attr self)), self))"

subsection \<open>The validation pass\<close>

datatype error_code = NOT_A_PROPERTY_OF | INVALID_PROPERTY_VALUE

type_synonym issue = "error_code \<times> string"

text \<open>
  Modelled from the spec: the decorator \<^verbatim>\<open>error\<close> of \<^verbatim>\<open>bokeh.core.validation\<close> is not
  in the file. A check that returns \<^verbatim>\<open>None\<close> reports nothing; a check that returns a
  message reports one error of the decorator's kind carrying that message. What the check
  raises, the wrapped check raises.
\<close>

definition error ::
  "error_code \<Rightarrow> ('s \<Rightarrow> (exn + string option) \<times> 's) \<Rightarrow> 's \<Rightarrow> (exn + issue list) \<times> 's" where
  "error c f self =
     (case f self of
        (Inl e, s) \<Rightarrow> (Inl e, s)
      | (Inr None, s) \<Rightarrow> (Inr [], s)
      | (Inr (Some extra), s) \<Rightarrow> (Inr [(c, extra)], s))"

text \<open>
  Modelled from the spec: the pass that runs a model's checks
  (\<^verbatim>\<open>bokeh.core.validation.check_integrity\<close>) is not in the file. It runs the checks of
  the model one after the other and collects the errors they report into one list,
  returned to the caller. Nothing in it catches what a check raises.
\<close>

fun check_integrity ::
  "('s \<Rightarrow> (exn + issue list) \<times> 's) list \<Rightarrow> 's \<Rightarrow> (exn + issue list) \<times> 's" where
  "check_integrity [] self = (Inr [], self)"
| "check_integrity (f # fs) self =
     (case f self of
        (Inl e, s) \<Rightarrow> (Inl e, s)
      | (Inr found, s) \<Rightarrow>
          (case check_integrity fs s of
             (Inl e, s') \<Rightarrow> (Inl e, s')
           | (Inr later, s') \<Rightarrow> (Inr (found @ later), s')))"

text \<open>The checks each class declares, in the order of their names.\<close>

definition OpenURL_checks :: "(OpenURL \<Rightarrow> (exn + issue list) \<times> OpenURL) list" where
  "OpenURL_checks = []"

definition SetValue_checks ::
  "('v \<Rightarrow> string) \<Rightarrow> ('v SetValue \<Rightarrow> (exn + issue list) \<times> 'v SetValue) list" where
  "SetValue_checks rp =
     [error NOT_A_PROPERTY_OF check_if_an_attribute_is_a_property_of_a_model,
      error INVALID_PROPERTY_VALUE (check_if_provided_a_valid_value rp)]"

text \<open>
  Modelled from the spec: dispatch of a \<^verbatim>\<open>SetValue\<close> is done by the browser runtime,
  which is not in the file. The spec: assign \<^verbatim>\<open>value\<close> to \<^verbatim>\<open>target.attribute\<close> via the
  schema's setter; the assignment must not occur unless validation most recently
  succeeded, and an implementer may re-validate at dispatch time. The result is the target
  after the assignment, or \<open>None\<close> when nothing was assigned.
\<close>

definition dispatch :: "('v \<Rightarrow> string) \<Rightarrow> 'v SetValue \<Rightarrow> 'v HasProps option" where
  "dispatch rp self =
     (case check_integrity (SetValue_checks rp) self of
        (Inr [], s) \<Rightarrow> Some ((obj s)\<lparr> props := (props (obj s))(attr s \<mapsto> value s) \<rparr>)
      | _ \<Rightarrow> None)"

subsection \<open>A sample target\<close>

text \<open>
  The scenario used to run the definitions: values are integers or strings, printed as
  Python's \<^verbatim>\<open>repr\<close> prints them (strings without quotes or escapes), and the target
  has an integer property \<^verbatim>\<open>x\<close> and a string property \<^verbatim>\<open>y\<close>.
\<close>

datatype pyval = PyInt int | PyStr string

fun digits :: "nat \<Rightarrow> string" where
  "digits n =
     (if n < 10 then [''0123456789'' ! n]
      else digits (n div 10) @ [''0123456789'' ! (n mod 10)])"

fun py_repr :: "pyval \<Rightarrow> string" where
  "py_repr (PyInt i) = (if i < 0 then ''-'' @ digits (nat (- i)) else digits (nat i))"
| "py_repr (PyStr s) = [CHR 0x27] @ s @ [CHR 0x27]"

definition Int_property :: "pyval Property" where
  "Int_property = \<lparr> is_valid = (\<lambda>v. case v of PyInt _ \<Rightarrow> True | PyStr _ \<Rightarrow> False) \<rparr>"

definition String_property :: "pyval Property" where
  "String_property = \<lparr> is_valid = (\<lambda>v. case v of PyInt _ \<Rightarrow> False | PyStr _ \<Rightarrow> True) \<rparr>"

definition target :: "pyval HasProps" where
  "target =
     \<lparr> str_of = ''Target(id=p1001)'',
       descriptors = [''x'' \<mapsto> \<lparr> property = Int_property \<rparr>,
                      ''y'' \<mapsto> \<lparr> property = String_property \<rparr>],
       props = [''x'' \<mapsto> PyInt 0, ''y'' \<mapsto> PyStr ''a''] \<rparr>"

section \<open>What the checks and the pass compute\<close>

lemma first_check_found:
  "descriptors (obj self) (attr self) = Some d \<Longrightarrow>
   check_if_an_attribute_is_a_property_of_a_model self = (Inr None, self)"
  by (simp add: check_if_an_attribute_is_a_property_of_a_model_def lookup_def)

lemma first_check_missing:
  "descriptors (obj self) (attr self) = None \<Longrightarrow>
   check_if_an_attribute_is_a_property_of_a_model self =
     (Inr (Some (attr self @ '' is not a property of '' @ str_of (obj self))), self)"
  by (simp add: check_if_an_attribute_is_a_property_of_a_model_def lookup_def)

lemma second_check_found:
  "descriptors (obj self) (attr self) = Some d \<Longrightarrow>
   check_if_provided_a_valid_value rp self =
     (if is_valid (property d) (value self) then (Inr None, self)
      else (Inr (Some (rp (value self) @ '' is not a valid value for ''
                         @ str_of (obj self) @ ''.'' @ attr self)), self))"
  by (simp add: check_if_provided_a_valid_value_def lookup_def)

lemma second_check_missing:
  "descriptors (obj self) (attr self) = None \<Longrightarrow>
   check_if_provided_a_valid_value rp self =
     (Inl (AttributeError (attr self @ '' property descriptor does not exist'')), self)"
  by (simp add: check_if_provided_a_valid_value_def lookup_def)

lemma first_check_frame: "snd (check_if_an_attribute_is_a_property_of_a_model self) = self"
  by (cases "descriptors (obj self) (attr self)")
     (simp_all add: first_check_found first_check_missing)

lemma second_check_frame: "snd (check_if_provided_a_valid_value rp self) = self"
  by (cases "descriptors (obj self) (attr self)")
     (simp_all add: second_check_found second_check_missing)

lemma error_frame:
  assumes "\<And>s. snd (f s) = s"
  shows "snd (error c f self) = self"
proof -
  obtain r s where fs: "f self = (r, s)" by (cases "f self")
  with assms [of self] have "s = self" by simp
  with fs show ?thesis
    by (cases r) (auto simp: error_def split: option.splits)
qed

lemma check_integrity_frame:
  assumes "\<And>f s. f \<in> set fs \<Longrightarrow> snd (f s) = s"
  shows "snd (check_integrity fs self) = self"
  using assms
proof (induction fs arbitrary: self)
  case Nil
  show ?case by simp
next
  case (Cons f fs)
  obtain r s where fs: "f self = (r, s)" by (cases "f self")
  from Cons.prems [of f self] fs have s: "s = self" by simp
  have rest: "snd (check_integrity fs self) = self"
    using Cons.IH Cons.prems by simp
  obtain r' s' where cs: "check_integrity fs self = (r', s')"
    by (cases "check_integrity fs self")
  with rest have "s' = self" by simp
  with fs s cs show ?case
    by (cases r; cases r') simp_all
qed

lemma SetValue_checks_frame: "snd (check_integrity (SetValue_checks rp) self) = self"
proof (rule check_integrity_frame)
  fix f and s :: "'a SetValue"
  assume "f \<in> set (SetValue_checks rp)"
  then consider "f = error NOT_A_PROPERTY_OF check_if_an_attribute_is_a_property_of_a_model"
    | "f = error INVALID_PROPERTY_VALUE (check_if_provided_a_valid_value rp)"
    by (auto simp: SetValue_checks_def)
  then show "snd (f s) = s"
  proof cases
    case 1
    then show ?thesis by (simp add: error_frame first_check_frame)
  next
    case 2
    then show ?thesis by (simp add: error_frame second_check_frame)
  qed
qed

lemma SetValue_checks_found:
  assumes "descriptors (obj self) (attr self) = Some d"
  shows "check_integrity (SetValue_checks rp) self =
     (if is_valid (property d) (value self) then (Inr [], self)
      else (Inr [(INVALID_PROPERTY_VALUE,
                  rp (value self) @ '' is not a valid value for ''
                    @ str_of (obj self) @ ''.'' @ attr self)], self))"
  by (simp add: SetValue_checks_def error_def first_check_found [OF assms]
      second_check_found [OF assms])

lemma SetValue_checks_missing:
  assumes "descriptors (obj self) (attr self) = None"
  shows "check_integrity (SetValue_checks rp) self =
     (Inl (AttributeError (attr self @ '' property descriptor does not exist'')), self)"
  by (simp add: SetValue_checks_def error_def first_check_missing [OF assms]
      second_check_missing [OF assms])

section \<open>Properties\<close>

text \<open>
  C1. For a \<^verbatim>\<open>SetValue\<close> whose attribute is not a property of its target, validation is
  claimed to give exactly one \<^verbatim>\<open>NOT_A_PROPERTY_OF\<close> error, carrying the attribute name
  and the target, and no \<^verbatim>\<open>INVALID_PROPERTY_VALUE\<close> error. On the sample target and the
  attribute \<^verbatim>\<open>z\<close> the first check reports that one error, but the second check raises
  the failure of its own lookup, and the pass ends with that exception instead of a list
  of errors.
\<close>

theorem missing_attribute_aborts_validation:
  "error NOT_A_PROPERTY_OF check_if_an_attribute_is_a_property_of_a_model
      \<lparr> obj = target, attr = ''z'', value = PyInt 5 \<rparr> =
     (Inr [(NOT_A_PROPERTY_OF, ''z is not a property of Target(id=p1001)'')],
      \<lparr> obj = target, attr = ''z'', value = PyInt 5 \<rparr>)
   \<and> error INVALID_PROPERTY_VALUE (check_if_provided_a_valid_value py_repr)
      \<lparr> obj = target, attr = ''z'', value = PyInt 5 \<rparr> =
     (Inl (AttributeError ''z property descriptor does not exist''),
      \<lparr> obj = target, attr = ''z'', value = PyInt 5 \<rparr>)
   \<and> check_integrity (SetValue_checks py_repr)
      \<lparr> obj = target, attr = ''z'', value = PyInt 5 \<rparr> =
     (Inl (AttributeError ''z property descriptor does not exist''),
      \<lparr> obj = target, attr = ''z'', value = PyInt 5 \<rparr>)"
  by (simp add: SetValue_checks_def error_def
      check_if_an_attribute_is_a_property_of_a_model_def
      check_if_provided_a_valid_value_def lookup_def target_def)

text \<open>
  C2. When the attribute is a property of the target and the value fails the validity
  check of that property, validation gives exactly one error: an
  \<^verbatim>\<open>INVALID_PROPERTY_VALUE\<close> whose message carries the value, the target and the
  attribute name. No \<^verbatim>\<open>NOT_A_PROPERTY_OF\<close> error is reported.
\<close>

theorem invalid_value_reported:
  assumes "descriptors (obj self) (attr self) = Some d"
    and "\<not> is_valid (property d) (value self)"
  shows "check_integrity (SetValue_checks rp) self =
     (Inr [(INVALID_PROPERTY_VALUE,
            rp (value self) @ '' is not a valid value for ''
              @ str_of (obj self) @ ''.'' @ attr self)], self)"
  using assms by (simp add: SetValue_checks_found)

theorem invalid_value_reported_witness:
  "descriptors (obj \<lparr> obj = target, attr = ''x'', value = PyStr ''bad'' \<rparr>)
      (attr \<lparr> obj = target, attr = ''x'', value = PyStr ''bad'' \<rparr>)
     = Some \<lparr> property = Int_property \<rparr>
   \<and> \<not> is_valid (property \<lparr> property = Int_property \<rparr>)
         (value \<lparr> obj = target, attr = ''x'', value = PyStr ''bad'' \<rparr>)
   \<and> check_integrity (SetValue_checks py_repr)
        \<lparr> obj = target, attr = ''x'', value = PyStr ''bad'' \<rparr> =
      (Inr [(INVALID_PROPERTY_VALUE,
             [CHR 0x27] @ ''bad'' @ [CHR 0x27]
               @ '' is not a valid value for Target(id=p1001).x'')],
       \<lparr> obj = target, attr = ''x'', value = PyStr ''bad'' \<rparr>)"
proof -
  let ?sv = "\<lparr> obj = target, attr = ''x'', value = PyStr ''bad'' \<rparr>"
  have found: "descriptors (obj ?sv) (attr ?sv) = Some \<lparr> property = Int_property \<rparr>"
    by (simp add: target_def)
  have bad: "\<not> is_valid (property \<lparr> property = Int_property \<rparr>) (value ?sv)"
    by (simp add: Int_property_def)
  show ?thesis
    using found bad invalid_value_reported [OF found bad, of py_repr]
    by (simp add: target_def)
qed

text \<open>
  C3. When the attribute is a property of the target and the value passes the validity
  check of that property, validation gives no error, and dispatch then assigns the value
  to that attribute of the target.
\<close>

theorem valid_value_clean_then_assigned:
  assumes "descriptors (obj self) (attr self) = Some d"
    and "is_valid (property d) (value self)"
  shows "check_integrity (SetValue_checks rp) self = (Inr [], self)
     \<and> dispatch rp self =
         Some ((obj self)\<lparr> props := (props (obj self))(attr self \<mapsto> value self) \<rparr>)
     \<and> props ((obj self)\<lparr> props := (props (obj self))(attr self \<mapsto> value self) \<rparr>)
         (attr self) = Some (value self)"
  using assms by (simp add: dispatch_def SetValue_checks_found)

theorem valid_value_clean_then_assigned_witness:
  "descriptors (obj \<lparr> obj = target, attr = ''x'', value = PyInt 5 \<rparr>)
      (attr \<lparr> obj = target, attr = ''x'', value = PyInt 5 \<rparr>)
     = Some \<lparr> property = Int_property \<rparr>
   \<and> is_valid (property \<lparr> property = Int_property \<rparr>)
        (value \<lparr> obj = target, attr = ''x'', value = PyInt 5 \<rparr>)
   \<and> check_integrity (SetValue_checks py_repr)
        \<lparr> obj = target, attr = ''x'', value = PyInt 5 \<rparr> =
      (Inr [], \<lparr> obj = target, attr = ''x'', value = PyInt 5 \<rparr>)
   \<and> dispatch py_repr \<lparr> obj = target, attr = ''x'', value = PyInt 5 \<rparr> =
      Some (target\<lparr> props := [''x'' \<mapsto> PyInt 5, ''y'' \<mapsto> PyStr ''a''] \<rparr>)"
proof -
  let ?sv = "\<lparr> obj = target, attr = ''x'', value = PyInt 5 \<rparr>"
  have found: "descriptors (obj ?sv) (attr ?sv) = Some \<lparr> property = Int_property \<rparr>"
    by (simp add: target_def)
  have good: "is_valid (property \<lparr> property = Int_property \<rparr>) (value ?sv)"
    by (simp add: Int_property_def)
  have upd: "(props target)(''x'' \<mapsto> PyInt 5) = [''x'' \<mapsto> PyInt 5, ''y'' \<mapsto> PyStr ''a'']"
    by (auto simp: target_def)
  show ?thesis
    using found good valid_value_clean_then_assigned [OF found good, of py_repr] upd
    by simp
qed

text \<open>
  C4. Constructing a \<^verbatim>\<open>CustomJS\<close> with missing or empty code is claimed to fail with
  \<^verbatim>\<open>EmptyCode\<close>. It does not: with the empty mapping for \<^verbatim>\<open>args\<close>, the empty string
  as code gives an object holding the empty string, and no code gives an object whose
  code is not set.
\<close>

theorem CustomJS_empty_code_accepted:
  "CustomJS_construct (Some (Map.empty :: string \<rightharpoonup> nat)) (Some '''') None =
     Inr \<lparr> args = Map.empty, code = Some '''', module = Auto \<rparr>
   \<and> CustomJS_construct (Some (Map.empty :: string \<rightharpoonup> nat)) (Some '''') None \<noteq>
     Inl EmptyCode
   \<and> CustomJS_construct (Some (Map.empty :: string \<rightharpoonup> nat)) None None =
     Inr \<lparr> args = Map.empty, code = None, module = Auto \<rparr>
   \<and> CustomJS_construct (Some (Map.empty :: string \<rightharpoonup> nat)) None None \<noteq>
     Inl EmptyCode"
  by (simp add: CustomJS_construct_def CustomJS_init_def)

text \<open>
  C4, as the code has it. Constructing a \<^verbatim>\<open>CustomJS\<close> never fails at construction
  time: with the code missing the object is built with its code not set, and with a code
  string, empty or not, it is built holding that string, whatever \<^verbatim>\<open>args\<close> is (the
  empty mapping included), and \<^verbatim>\<open>args\<close> is stored as given.
\<close>

theorem CustomJS_construction_accepts_any_code:
  "CustomJS_construct a c m = Inr (CustomJS_init a c m)
   \<and> code (CustomJS_init a c m) = c
   \<and> args (CustomJS_init (Some d) c m) = d"
  by (simp add: CustomJS_construct_def CustomJS_init_def)

text \<open>
  C5. The second check is total exactly on the directives whose attribute is a property
  of the target. When the attribute is not one, the check neither returns a message nor
  \<^verbatim>\<open>None\<close>: its lookup, called without \<^verbatim>\<open>raises=False\<close>, fails, and the check
  raises that failure. When the attribute is one, the check returns.
\<close>

theorem second_check_total_iff_property:
  "(descriptors (obj self) (attr self) = None \<longrightarrow>
      (\<exists>e. lookup (obj self) (attr self) True = Inl e
          \<and> check_if_provided_a_valid_value rp self = (Inl e, self)))
   \<and> (descriptors (obj self) (attr self) \<noteq> None \<longrightarrow>
      (\<exists>r. check_if_provided_a_valid_value rp self = (Inr r, self)))"
  by (auto simp: second_check_missing second_check_found lookup_def)

theorem second_check_total_iff_property_witness:
  "descriptors (obj \<lparr> obj = target, attr = ''z'', value = PyInt 5 \<rparr>)
      (attr \<lparr> obj = target, attr = ''z'', value = PyInt 5 \<rparr>) = None
   \<and> (\<exists>e. lookup target ''z'' True = Inl e
         \<and> check_if_provided_a_valid_value py_repr
             \<lparr> obj = target, attr = ''z'', value = PyInt 5 \<rparr> =
           (Inl e, \<lparr> obj = target, attr = ''z'', value = PyInt 5 \<rparr>))
   \<and> descriptors (obj \<lparr> obj = target, attr = ''y'', value = PyInt 5 \<rparr>)
      (attr \<lparr> obj = target, attr = ''y'', value = PyInt 5 \<rparr>) \<noteq> None
   \<and> (\<exists>r. check_if_provided_a_valid_value py_repr
             \<lparr> obj = target, attr = ''y'', value = PyInt 5 \<rparr> =
           (Inr r, \<lparr> obj = target, attr = ''y'', value = PyInt 5 \<rparr>))"
proof -
  let ?z = "\<lparr> obj = target, attr = ''z'', value = PyInt 5 \<rparr>"
  let ?y = "\<lparr> obj = target, attr = ''y'', value = PyInt 5 \<rparr>"
  have missing: "descriptors (obj ?z) (attr ?z) = None"
    by (simp add: target_def)
  have found: "descriptors (obj ?y) (attr ?y) \<noteq> None"
    by (simp add: target_def)
  show ?thesis
    using missing found
      second_check_total_iff_property [of ?z py_repr]
      second_check_total_iff_property [of ?y py_repr]
    by simp
qed

text \<open>
  C6. Constructing an \<^verbatim>\<open>OpenURL\<close> with no arguments gives a directive whose \<^verbatim>\<open>url\<close> is
  the string \<^verbatim>\<open>"http://"\<close> and whose \<^verbatim>\<open>same_tab\<close> is false.
\<close>

theorem OpenURL_defaults:
  "url (OpenURL_init None None) = ''http://'' \<and> same_tab (OpenURL_init None None) = False"
  by (simp add: OpenURL_init_def)

text \<open>
  C7. Constructing a \<^verbatim>\<open>CustomJS\<close> without \<^verbatim>\<open>args\<close> and without \<^verbatim>\<open>module\<close> gives a
  directive whose \<^verbatim>\<open>args\<close> is the empty mapping and whose \<^verbatim>\<open>module\<close> is
  \<^verbatim>\<open>"auto"\<close>.
\<close>

theorem CustomJS_defaults:
  "args (CustomJS_init None c None) = Map.empty \<and> module (CustomJS_init None c None) = Auto"
  by (simp add: CustomJS_init_def)

text \<open>
  C8. An \<^verbatim>\<open>OpenURL\<close> declares no validation check: for every \<^verbatim>\<open>OpenURL\<close> (a string
  \<^verbatim>\<open>url\<close> and a boolean \<^verbatim>\<open>same_tab\<close>) validation gives no error and leaves the
  directive as it was.
\<close>

theorem OpenURL_no_checks:
  "OpenURL_checks = [] \<and> check_integrity OpenURL_checks u = (Inr [], u)"
  by (simp add: OpenURL_checks_def)

text \<open>
  C9. The outcome of validating a \<^verbatim>\<open>SetValue\<close> is fixed by the directive and the schema
  of its target: two runs give the same errors, of the same kinds and number and with
  the same messages, or raise the same failure, whenever they see the same attribute
  name, the same value, the same target identity and the same schema, whatever the
  property values of the target are at each run. In particular a run on what the first
  run left behind repeats its outcome.
\<close>

theorem SetValue_validation_deterministic:
  assumes "attr a = attr b" and "value a = value b"
    and "str_of (obj a) = str_of (obj b)"
    and "descriptors (obj a) = descriptors (obj b)"
  shows "fst (check_integrity (SetValue_checks rp) a) =
           fst (check_integrity (SetValue_checks rp) b)
     \<and> fst (check_integrity (SetValue_checks rp)
              (snd (check_integrity (SetValue_checks rp) a))) =
           fst (check_integrity (SetValue_checks rp) b)"
proof -
  have same: "fst (check_integrity (SetValue_checks rp) a) =
      fst (check_integrity (SetValue_checks rp) b)"
  proof (cases "descriptors (obj a) (attr a)")
    case None
    with assms have "descriptors (obj b) (attr b) = None" by simp
    with None assms(1) show ?thesis
      by (simp add: SetValue_checks_missing)
  next
    case (Some d)
    with assms have "descriptors (obj b) (attr b) = Some d" by simp
    with Some assms show ?thesis
      by (simp add: SetValue_checks_found)
  qed
  then show ?thesis
    by (simp add: SetValue_checks_frame)
qed

theorem SetValue_validation_deterministic_witness:
  "attr \<lparr> obj = target, attr = ''x'', value = PyStr ''bad'' \<rparr> =
     attr \<lparr> obj = target\<lparr> props := [''x'' \<mapsto> PyInt 7] \<rparr>, attr = ''x'',
            value = PyStr ''bad'' \<rparr>
   \<and> value \<lparr> obj = target, attr = ''x'', value = PyStr ''bad'' \<rparr> =
     value \<lparr> obj = target\<lparr> props := [''x'' \<mapsto> PyInt 7] \<rparr>, attr = ''x'',
             value = PyStr ''bad'' \<rparr>
   \<and> str_of (obj \<lparr> obj = target, attr = ''x'', value = PyStr ''bad'' \<rparr>) =
     str_of (obj \<lparr> obj = target\<lparr> props := [''x'' \<mapsto> PyInt 7] \<rparr>, attr = ''x'',
                   value = PyStr ''bad'' \<rparr>)
   \<and> descriptors (obj \<lparr> obj = target, attr = ''x'', value = PyStr ''bad'' \<rparr>) =
     descriptors (obj \<lparr> obj = target\<lparr> props := [''x'' \<mapsto> PyInt 7] \<rparr>, attr = ''x'',
                        value = PyStr ''bad'' \<rparr>)
   \<and> props target \<noteq> [''x'' \<mapsto> PyInt 7]
   \<and> fst (check_integrity (SetValue_checks py_repr)
            \<lparr> obj = target, attr = ''x'', value = PyStr ''bad'' \<rparr>) =
     Inr [(INVALID_PROPERTY_VALUE,
           [CHR 0x27] @ ''bad'' @ [CHR 0x27]
             @ '' is not a valid value for Target(id=p1001).x'')]
   \<and> fst (check_integrity (SetValue_checks py_repr)
            \<lparr> obj = target\<lparr> props := [''x'' \<mapsto> PyInt 7] \<rparr>, attr = ''x'',
              value = PyStr ''bad'' \<rparr>) =
     Inr [(INVALID_PROPERTY_VALUE,
           [CHR 0x27] @ ''bad'' @ [CHR 0x27]
             @ '' is not a valid value for Target(id=p1001).x'')]"
proof -
  let ?a = "\<lparr> obj = target, attr = ''x'', value = PyStr ''bad'' \<rparr>"
  let ?b = "\<lparr> obj = target\<lparr> props := [''x'' \<mapsto> PyInt 7] \<rparr>, attr = ''x'',
             value = PyStr ''bad'' \<rparr>"
  have h1: "attr ?a = attr ?b" by simp
  have h2: "value ?a = value ?b" by simp
  have h3: "str_of (obj ?a) = str_of (obj ?b)" by simp
  have h4: "descriptors (obj ?a) = descriptors (obj ?b)" by simp
  have differ: "props target \<noteq> [''x'' \<mapsto> PyInt 7]"
  proof
    assume "props target = [''x'' \<mapsto> PyInt 7]"
    then have "props target ''y'' = [''x'' \<mapsto> PyInt 7] ''y''" by simp
    then show False by (simp add: target_def)
  qed
  have run: "fst (check_integrity (SetValue_checks py_repr) ?a) =
      Inr [(INVALID_PROPERTY_VALUE,
            [CHR 0x27] @ ''bad'' @ [CHR 0x27]
              @ '' is not a valid value for Target(id=p1001).x'')]"
    by (simp add: SetValue_checks_def error_def
        check_if_an_attribute_is_a_property_of_a_model_def
        check_if_provided_a_valid_value_def lookup_def target_def Int_property_def)
  show ?thesis
    using h1 h2 h3 h4 differ run
      SetValue_validation_deterministic [OF h1 h2 h3 h4, of py_repr]
    by simp
qed

text \<open>
  C10. Neither check changes anything: after either of them the directive, with its
  \<^verbatim>\<open>obj\<close>, \<^verbatim>\<open>attr\<close> and \<^verbatim>\<open>value\<close> and with every property of the target, is
  what it was before, whether the check returned \<^verbatim>\<open>None\<close>, returned a message or
  raised.
\<close>

theorem SetValue_checks_leave_state:
  "snd (check_if_an_attribute_is_a_property_of_a_model self) = self
   \<and> snd (check_if_provided_a_valid_value rp self) = self"
  by (simp add: first_check_frame second_check_frame)

end
